theory Spec2Isabelle
  imports Main
begin

section \<open>JavaScript values used by the Instagram adapter\<close>

text \<open>
  The quota counters are JavaScript numbers. Every value the limiter stores is either an
  integer (the static table, \<open>Date.now()\<close>, a parsed header) or \<open>NaN\<close>
  (\<open>parseInt\<close> of a header with no leading digits), so a number is modelled as an
  unbounded integer or \<open>NaN\<close>. Rounding of integers beyond \<open>2^53\<close> is not modelled.
  Every comparison with \<open>NaN\<close> is false, and arithmetic on \<open>NaN\<close> gives \<open>NaN\<close>.
\<close>

datatype jsnum = NaN | Num int

fun js_gt :: "jsnum \<Rightarrow> jsnum \<Rightarrow> bool" where
  "js_gt (Num a) (Num b) = (a > b)"
| "js_gt _ _ = False"

fun js_ge :: "jsnum \<Rightarrow> jsnum \<Rightarrow> bool" where
  "js_ge (Num a) (Num b) = (a \<ge> b)"
| "js_ge _ _ = False"

fun js_le :: "jsnum \<Rightarrow> jsnum \<Rightarrow> bool" where
  "js_le (Num a) (Num b) = (a \<le> b)"
| "js_le _ _ = False"

fun js_sub :: "jsnum \<Rightarrow> jsnum \<Rightarrow> jsnum" where
  "js_sub (Num a) (Num b) = Num (a - b)"
| "js_sub _ _ = NaN"

fun js_mul :: "jsnum \<Rightarrow> jsnum \<Rightarrow> jsnum" where
  "js_mul (Num a) (Num b) = Num (a * b)"
| "js_mul _ _ = NaN"

text \<open>\<open>Math.max(a, b)\<close>: \<open>NaN\<close> as soon as one argument is.\<close>

fun js_max :: "jsnum \<Rightarrow> jsnum \<Rightarrow> jsnum" where
  "js_max (Num a) (Num b) = Num (max a b)"
| "js_max _ _ = NaN"

text \<open>\<open>Math.floor(a / k)\<close> for a positive integer constant \<open>k\<close>.\<close>

fun js_floor_div :: "jsnum \<Rightarrow> int \<Rightarrow> jsnum" where
  "js_floor_div (Num a) k = Num (a div k)"
| "js_floor_div NaN k = NaN"

text \<open>\<open>a % k\<close>: the remainder takes the sign of the dividend.\<close>

fun js_rem :: "jsnum \<Rightarrow> int \<Rightarrow> jsnum" where
  "js_rem (Num a) k = Num (sgn a * (\<bar>a\<bar> mod \<bar>k\<bar>))"
| "js_rem NaN k = NaN"

text \<open>Digits of a natural number in a radix, most significant first
  (\<open>Number.prototype.toString(radix)\<close> on a non-negative integer).\<close>

definition digit_char :: "nat \<Rightarrow> char" where
  "digit_char d = ''0123456789abcdefghijklmnopqrstuvwxyz'' ! (d mod 36)"

function toString_radix :: "nat \<Rightarrow> nat \<Rightarrow> string" where
  "toString_radix r n =
     (if r < 2 \<or> n < r then [digit_char n]
      else toString_radix r (n div r) @ [digit_char (n mod r)])"
  by pat_completeness auto
termination
  by (relation "measure (\<lambda>(r, n). n)") auto

declare toString_radix.simps [simp del]

text \<open>A number inside a template literal: \<open>`${x}`\<close>.\<close>

fun js_show :: "jsnum \<Rightarrow> string" where
  "js_show NaN = ''NaN''"
| "js_show (Num a) =
     (if a < 0 then CHR ''-'' # toString_radix 10 (nat (- a)) else toString_radix 10 (nat a))"

text \<open>
  \<open>parseInt(s, 10)\<close>: leading white space is skipped, one sign is read, then the longest
  run of decimal digits; no digit gives \<open>NaN\<close>. A string is a list of UTF-16 code units
  below 256, one \<open>char\<close> each.
\<close>

definition is_ws :: "char \<Rightarrow> bool" where
  "is_ws c = (c \<in> set [CHR 0x09, CHR 0x0A, CHR 0x0B, CHR 0x0C, CHR 0x0D, CHR 0x20, CHR 0xA0])"

definition is_digit :: "char \<Rightarrow> bool" where
  "is_digit c = (48 \<le> (of_char c :: nat) \<and> (of_char c :: nat) \<le> 57)"

definition digit_val :: "char \<Rightarrow> int" where
  "digit_val c = int (of_char c) - 48"

definition digits_val :: "string \<Rightarrow> int" where
  "digits_val ds = foldl (\<lambda>a c. 10 * a + digit_val c) 0 ds"

definition parseInt :: "string \<Rightarrow> jsnum" where
  "parseInt s =
     (let s1 = dropWhile is_ws s;
          neg = (case s1 of c # _ \<Rightarrow> c = CHR ''-'' | [] \<Rightarrow> False);
          s2 = (case s1 of c # r \<Rightarrow> if c = CHR ''-'' \<or> c = CHR ''+'' then r else s1 | [] \<Rightarrow> s1);
          ds = takeWhile is_digit s2
      in if ds = [] then NaN else Num ((if neg then - 1 else 1) * digits_val ds))"

text \<open>A \<open>Record<string, string>\<close>: an object read by key. A missing key and the
  empty string are both falsy.\<close>

type_synonym headers = "(string \<times> string) list"

definition header :: "headers \<Rightarrow> string \<Rightarrow> string option" where
  "header hs k = map_of hs k"

definition truthy_str :: "string option \<Rightarrow> bool" where
  "truthy_str v = (case v of None \<Rightarrow> False | Some s \<Rightarrow> s \<noteq> [])"

section \<open>core/rate-limiter.ts\<close>

text \<open>The keys of \<open>RateLimits\<close>; the constructors are capitalised.\<close>

datatype RateLimitCategory =
  Read | Write | Content_publish | Stories | Messages | Follows | Likes

text \<open>\<open>RateLimitConfig\<close>; its fields are prefixed, since \<open>RateLimitBucket\<close> has
  fields of the same names.\<close>

record RateLimitConfig =
  cfg_limit :: int
  cfg_window_seconds :: int

record RateLimitBucket =
  limit :: jsnum
  remaining :: jsnum
  reset_at :: jsnum
  window_seconds :: jsnum

fun DEFAULT_LIMITS :: "RateLimitCategory \<Rightarrow> RateLimitConfig" where
  "DEFAULT_LIMITS Read = \<lparr>cfg_limit = 200, cfg_window_seconds = 3600\<rparr>"
| "DEFAULT_LIMITS Write = \<lparr>cfg_limit = 25, cfg_window_seconds = 3600\<rparr>"
| "DEFAULT_LIMITS Content_publish = \<lparr>cfg_limit = 25, cfg_window_seconds = 86400\<rparr>"
| "DEFAULT_LIMITS Stories = \<lparr>cfg_limit = 100, cfg_window_seconds = 86400\<rparr>"
| "DEFAULT_LIMITS Messages = \<lparr>cfg_limit = 100, cfg_window_seconds = 86400\<rparr>"
| "DEFAULT_LIMITS Follows = \<lparr>cfg_limit = 60, cfg_window_seconds = 3600\<rparr>"
| "DEFAULT_LIMITS Likes = \<lparr>cfg_limit = 60, cfg_window_seconds = 3600\<rparr>"

definition categories :: "RateLimitCategory list" where
  "categories = [Read, Write, Content_publish, Stories, Messages, Follows, Likes]"

text \<open>The limiter object: the \<open>Map\<close> of buckets and the global switch. The methods
  mutate the bucket objects in place; the model returns the updated limiter.\<close>

record RateLimiter =
  buckets :: "RateLimitCategory \<rightharpoonup> RateLimitBucket"
  enabled :: bool

text \<open>A write to a field of a bucket object held in the \<open>Map\<close>: the limiter
  then holds the updated bucket under the same key.\<close>

definition put_bucket :: "RateLimitCategory \<Rightarrow> RateLimitBucket \<Rightarrow> RateLimiter \<Rightarrow> RateLimiter" where
  "put_bucket category bucket st = st\<lparr>buckets := (buckets st)(category \<mapsto> bucket)\<rparr>"

text \<open>
  Time is read with \<open>Date.now()\<close>. Each reading is a parameter of the model, one per
  call of \<open>Date.now()\<close> in the source, so two readings inside one method may differ.
  \<open>initializeBuckets\<close> reads the clock once per category.
\<close>

definition initializeBuckets :: "(RateLimitCategory \<Rightarrow> int) \<Rightarrow> RateLimiter \<Rightarrow> RateLimiter" where
  "initializeBuckets now st =
     foldl (\<lambda>s category.
         let config = DEFAULT_LIMITS category in
         put_bucket category
           \<lparr>limit = Num (cfg_limit config),
            remaining = Num (cfg_limit config),
            reset_at = Num (now category + cfg_window_seconds config * 1000),
            window_seconds = Num (cfg_window_seconds config)\<rparr> s)
       st categories"

definition new_RateLimiter :: "bool \<Rightarrow> (RateLimitCategory \<Rightarrow> int) \<Rightarrow> RateLimiter" where
  "new_RateLimiter en now = initializeBuckets now \<lparr>buckets = Map.empty, enabled = en\<rparr>"

definition resetBucket :: "int \<Rightarrow> RateLimitCategory \<Rightarrow> RateLimiter \<Rightarrow> RateLimiter" where
  "resetBucket now category st =
     (let config = DEFAULT_LIMITS category in
      case buckets st category of
        None \<Rightarrow> st
      | Some bucket \<Rightarrow>
          put_bucket category
            (bucket\<lparr>remaining := Num (cfg_limit config),
                    reset_at := Num (now + cfg_window_seconds config * 1000)\<rparr>) st)"

text \<open>\<open>canExecute now now_reset\<close>: \<open>now\<close> is the reading compared with
  \<open>reset_at\<close>, \<open>now_reset\<close> the one taken inside \<open>resetBucket\<close>.\<close>

definition canExecute ::
  "int \<Rightarrow> int \<Rightarrow> RateLimitCategory \<Rightarrow> RateLimiter \<Rightarrow> bool \<times> RateLimiter" where
  "canExecute now now_reset category st =
     (if \<not> enabled st then (True, st)
      else case buckets st category of
        None \<Rightarrow> (True, st)
      | Some bucket \<Rightarrow>
          if js_ge (Num now) (reset_at bucket) then (True, resetBucket now_reset category st)
          else (js_gt (remaining bucket) (Num 0), st))"

text \<open>\<open>consume\<close>: after the reset the source reads the same bucket object again, so
  the model looks the bucket up in the limiter the reset returned (it is always there).\<close>

definition consume ::
  "int \<Rightarrow> int \<Rightarrow> RateLimitCategory \<Rightarrow> RateLimiter \<Rightarrow> bool \<times> RateLimiter" where
  "consume now now_reset category st =
     (if \<not> enabled st then (True, st)
      else case buckets st category of
        None \<Rightarrow> (True, st)
      | Some bucket0 \<Rightarrow>
          let st1 = (if js_ge (Num now) (reset_at bucket0)
                     then resetBucket now_reset category st else st)
          in case buckets st1 category of
               None \<Rightarrow> (True, st1)
             | Some bucket \<Rightarrow>
                 if js_le (remaining bucket) (Num 0) then (False, st1)
                 else (True, put_bucket category
                         (bucket\<lparr>remaining := js_sub (remaining bucket) (Num 1)\<rparr>) st1))"

definition getWaitTime :: "int \<Rightarrow> RateLimitCategory \<Rightarrow> RateLimiter \<Rightarrow> jsnum" where
  "getWaitTime now category st =
     (if \<not> enabled st then Num 0
      else case buckets st category of
        None \<Rightarrow> Num 0
      | Some bucket \<Rightarrow>
          if js_gt (remaining bucket) (Num 0) then Num 0
          else js_max (Num 0) (js_sub (reset_at bucket) (Num now)))"

definition getWaitTimeFormatted :: "int \<Rightarrow> RateLimitCategory \<Rightarrow> RateLimiter \<Rightarrow> string" where
  "getWaitTimeFormatted now category st =
     (let ms = getWaitTime now category st in
      if ms = Num 0 then ''0s''
      else
        let seconds = js_floor_div ms 1000;
            minutes = js_floor_div seconds 60;
            hours = js_floor_div minutes 60
        in if js_gt hours (Num 0) then js_show hours @ ''h '' @ js_show (js_rem minutes 60) @ ''m''
           else if js_gt minutes (Num 0) then js_show minutes @ ''m '' @ js_show (js_rem seconds 60) @ ''s''
           else js_show seconds @ ''s'')"

definition getBucketStatus :: "RateLimitCategory \<Rightarrow> RateLimiter \<Rightarrow> RateLimitBucket option" where
  "getBucketStatus category st = buckets st category"

text \<open>\<open>updateFromHeaders\<close> does not look at the switch: each header that is present
  and non-empty overwrites its field with what \<open>parseInt\<close> returns.\<close>

definition updateFromHeaders :: "RateLimitCategory \<Rightarrow> headers \<Rightarrow> RateLimiter \<Rightarrow> RateLimiter" where
  "updateFromHeaders category hs st =
     (case buckets st category of
        None \<Rightarrow> st
      | Some bucket \<Rightarrow>
          let b1 = (case header hs ''x-ratelimit-remaining'' of
                      Some v \<Rightarrow> if v \<noteq> [] then bucket\<lparr>remaining := parseInt v\<rparr> else bucket
                    | None \<Rightarrow> bucket);
              b2 = (case header hs ''x-ratelimit-reset'' of
                      Some v \<Rightarrow> if v \<noteq> [] then b1\<lparr>reset_at := js_mul (parseInt v) (Num 1000)\<rparr> else b1
                    | None \<Rightarrow> b1);
              b3 = (case header hs ''x-ratelimit-limit'' of
                      Some v \<Rightarrow> if v \<noteq> [] then b2\<lparr>limit := parseInt v\<rparr> else b2
                    | None \<Rightarrow> b2)
          in put_bucket category b3 st)"

definition setEnabled :: "bool \<Rightarrow> RateLimiter \<Rightarrow> RateLimiter" where
  "setEnabled en st = st\<lparr>enabled := en\<rparr>"

definition isEnabled :: "RateLimiter \<Rightarrow> bool" where
  "isEnabled st = enabled st"

text \<open>A run of \<open>consume\<close> calls on one category, each with its own clock readings;
  the results are returned in call order.\<close>

fun consume_all ::
  "(int \<times> int) list \<Rightarrow> RateLimitCategory \<Rightarrow> RateLimiter \<Rightarrow> bool list \<times> RateLimiter" where
  "consume_all [] category st = ([], st)"
| "consume_all ((now, now_reset) # ts) category st =
     (let (r, st1) = consume now now_reset category st;
          (rs, st2) = consume_all ts category st1
      in (r # rs, st2))"

section \<open>core/auth.ts\<close>

text \<open>Optional fields are \<open>option\<close>s; a string is truthy when it is present and
  non-empty. The configuration record keeps the fields the adapter core reads.\<close>

record InstagramConfig =
  config_access_token :: "string option"
  config_session_id :: "string option"
  config_business_account_id :: "string option"
  config_api_version :: string
  rate_limit_enabled :: bool

record GraphApiTokens =
  access_token :: string
  expires_at :: "int option"
  token_type :: string

record PrivateApiTokens =
  session_id :: string
  csrf_token :: "string option"
  user_id :: "string option"
  session_expires_at :: "int option"

record AuthTokens =
  graph_api :: "GraphApiTokens option"
  private_api :: "PrivateApiTokens option"

record InstagramAuth =
  config :: InstagramConfig
  tokens :: AuthTokens

text \<open>A thrown \<open>new Error(message)\<close>.\<close>

datatype js_error = Error string

definition initializeTokens :: "InstagramAuth \<Rightarrow> InstagramAuth" where
  "initializeTokens a =
     (let a1 = (case config_access_token (config a) of
                  None \<Rightarrow> a
                | Some t \<Rightarrow>
                    if t = [] then a
                    else a\<lparr>tokens := (tokens a)\<lparr>graph_api :=
                           Some \<lparr>access_token = t, expires_at = None,
                                 token_type = ''bearer''\<rparr>\<rparr>\<rparr>)
      in case config_session_id (config a1) of
           None \<Rightarrow> a1
         | Some sid \<Rightarrow>
             if sid = [] then a1
             else a1\<lparr>tokens := (tokens a1)\<lparr>private_api :=
                    Some \<lparr>session_id = sid, csrf_token = None, user_id = None,
                          session_expires_at = None\<rparr>\<rparr>\<rparr>)"

definition new_InstagramAuth :: "InstagramConfig \<Rightarrow> InstagramAuth" where
  "new_InstagramAuth cfg =
     initializeTokens \<lparr>config = cfg, tokens = \<lparr>graph_api = None, private_api = None\<rparr>\<rparr>"

definition getGraphApiToken :: "InstagramAuth \<Rightarrow> string option" where
  "getGraphApiToken a = map_option access_token (graph_api (tokens a))"

definition getPrivateApiSession :: "InstagramAuth \<Rightarrow> string option" where
  "getPrivateApiSession a = map_option session_id (private_api (tokens a))"

definition hasGraphApiAuth :: "InstagramAuth \<Rightarrow> bool" where
  "hasGraphApiAuth a = truthy_str (getGraphApiToken a)"

definition hasPrivateApiAuth :: "InstagramAuth \<Rightarrow> bool" where
  "hasPrivateApiAuth a = truthy_str (getPrivateApiSession a)"

definition isAuthenticated :: "InstagramAuth \<Rightarrow> bool" where
  "isAuthenticated a = (hasGraphApiAuth a \<or> hasPrivateApiAuth a)"

definition getGraphApiHeaders :: "InstagramAuth \<Rightarrow> js_error + headers" where
  "getGraphApiHeaders a =
     (case getGraphApiToken a of
        None \<Rightarrow> Inl (Error ''Graph API token non disponible'')
      | Some token \<Rightarrow>
          if token = [] then Inl (Error ''Graph API token non disponible'')
          else Inr [(''Authorization'', ''Bearer '' @ token),
                    (''Content-Type'', ''application/json'')])"

text \<open>
  The string hash of \<open>generateDeviceId\<close> and \<open>generateAndroidId\<close>. \<open>hash << 5\<close>
  and \<open>hash & hash\<close> convert to a signed 32-bit integer (\<open>to_int32\<close>); the
  subtraction and the addition between them are exact. \<open>charCodeAt\<close> is the code unit.
\<close>

definition to_int32 :: "int \<Rightarrow> int" where
  "to_int32 x = (x + 2147483648) mod 4294967296 - 2147483648"

definition hash_step :: "int \<Rightarrow> char \<Rightarrow> int" where
  "hash_step hash c = to_int32 ((to_int32 (hash * 32) - hash) + int (of_char c))"

definition seed_hash :: "string \<Rightarrow> int" where
  "seed_hash seed = foldl hash_step 0 seed"

text \<open>\<open>s.slice(a, b)\<close> and \<open>s.padStart(n, '0')\<close> for indices within the string.\<close>

definition slice :: "nat \<Rightarrow> nat \<Rightarrow> string \<Rightarrow> string" where
  "slice a b s = take (b - a) (drop a s)"

definition padStart :: "nat \<Rightarrow> char \<Rightarrow> string \<Rightarrow> string" where
  "padStart n c s = replicate (n - length s) c @ s"

text \<open>\<open>this.tokens.private_api?.session_id || 'default'\<close>\<close>

definition device_seed :: "InstagramAuth \<Rightarrow> string" where
  "device_seed a =
     (case getPrivateApiSession a of
        None \<Rightarrow> ''default''
      | Some s \<Rightarrow> if s = [] then ''default'' else s)"

definition generateDeviceId :: "InstagramAuth \<Rightarrow> string" where
  "generateDeviceId a =
     (let hash = seed_hash (device_seed a);
          hex = padStart 32 (CHR ''0'') (toString_radix 16 (nat \<bar>hash\<bar>))
      in slice 0 8 hex @ ''-'' @ slice 8 12 hex @ ''-4'' @ slice 13 16 hex @
         ''-a'' @ slice 17 20 hex @ ''-'' @ slice 20 32 hex)"

definition generateAndroidId :: "InstagramAuth \<Rightarrow> string" where
  "generateAndroidId a =
     (let hash = seed_hash (device_seed a)
      in ''android-'' @ slice 0 16 (toString_radix 16 (nat \<bar>hash\<bar>)))"

definition getPrivateApiHeaders :: "InstagramAuth \<Rightarrow> js_error + headers" where
  "getPrivateApiHeaders a =
     (case getPrivateApiSession a of
        None \<Rightarrow> Inl (Error ''Private API session non disponible'')
      | Some sessionId \<Rightarrow>
          if sessionId = [] then Inl (Error ''Private API session non disponible'')
          else Inr [(''Cookie'', ''sessionid='' @ sessionId),
                    (''User-Agent'', ''Instagram 275.0.0.27.98 Android (33/13; 420dpi; 1080x2400; samsung; SM-G991B; o1s; exynos2100; fr_FR; 458229237)''),
                    (''X-IG-App-ID'', ''936619743392459''),
                    (''X-IG-Device-ID'', generateDeviceId a),
                    (''X-IG-Android-ID'', generateAndroidId a),
                    (''Content-Type'', ''application/x-www-form-urlencoded''),
                    (''Accept-Language'', ''fr-FR,fr;q=0.9'')])"

definition updateGraphApiToken :: "string \<Rightarrow> int option \<Rightarrow> InstagramAuth \<Rightarrow> InstagramAuth" where
  "updateGraphApiToken token expiresAt a =
     a\<lparr>tokens := (tokens a)\<lparr>graph_api :=
         Some \<lparr>access_token = token, expires_at = expiresAt, token_type = ''bearer''\<rparr>\<rparr>\<rparr>"

definition updatePrivateApiSession ::
  "string \<Rightarrow> string option \<Rightarrow> string option \<Rightarrow> InstagramAuth \<Rightarrow> InstagramAuth" where
  "updatePrivateApiSession sessionId csrfToken userId a =
     a\<lparr>tokens := (tokens a)\<lparr>private_api :=
         Some \<lparr>session_id = sessionId, csrf_token = csrfToken, user_id = userId,
               session_expires_at = None\<rparr>\<rparr>\<rparr>"

section \<open>core/client.ts\<close>

text \<open>Values of unknown shape (response bodies, request parameters, error details).\<close>

datatype json =
  JUndefined | JNull | JBool bool | JNum jsnum | JStr string
| JArr "json list" | JObj "(string \<times> json) list"

definition truthy :: "json \<Rightarrow> bool" where
  "truthy v =
     (case v of
        JUndefined \<Rightarrow> False | JNull \<Rightarrow> False | JBool b \<Rightarrow> b
      | JNum n \<Rightarrow> (case n of NaN \<Rightarrow> False | Num i \<Rightarrow> i \<noteq> 0)
      | JStr s \<Rightarrow> s \<noteq> [] | JArr _ \<Rightarrow> True | JObj _ \<Rightarrow> True)"

text \<open>\<open>v?.k\<close> for the property names the client reads (\<open>error\<close>, \<open>code\<close>,
  \<open>message\<close>, \<open>status_code\<close>): only an object can hold them.\<close>

definition field :: "string \<Rightarrow> json \<Rightarrow> json" where
  "field k v =
     (case v of
        JObj fs \<Rightarrow> (case map_of fs k of None \<Rightarrow> JUndefined | Some x \<Rightarrow> x)
      | _ \<Rightarrow> JUndefined)"

text \<open>\<open>a || b\<close>\<close>

definition or_else :: "json \<Rightarrow> json \<Rightarrow> json" where
  "or_else a b = (if truthy a then a else b)"

text \<open>Assignment of one property: an existing key keeps its place.\<close>

fun obj_set :: "string \<Rightarrow> json \<Rightarrow> (string \<times> json) list \<Rightarrow> (string \<times> json) list" where
  "obj_set k v [] = [(k, v)]"
| "obj_set k v ((k', v') # fs) = (if k = k' then (k, v) # fs else (k', v') # obj_set k v fs)"

text \<open>The own enumerable properties an object spread \<open>{...v}\<close> copies: the fields
  of an object, the indexed elements of an array or string, nothing otherwise. The order
  of the keys of the resulting object is not modelled.\<close>

definition spread_props :: "json \<Rightarrow> (string \<times> json) list" where
  "spread_props v =
     (case v of
        JObj fs \<Rightarrow> fs
      | JArr xs \<Rightarrow> map (\<lambda>(i, x). (toString_radix 10 i, x)) (enumerate 0 xs)
      | JStr s \<Rightarrow> map (\<lambda>(i, c). (toString_radix 10 i, JStr [c])) (enumerate 0 s)
      | _ \<Rightarrow> [])"

definition obj_assign :: "(string \<times> json) list \<Rightarrow> (string \<times> json) list \<Rightarrow> (string \<times> json) list" where
  "obj_assign base extra = foldl (\<lambda>obj (k, v). obj_set k v obj) base extra"

datatype ApiType = Graph | Private

definition api_name :: "ApiType \<Rightarrow> string" where
  "api_name a = (case a of Graph \<Rightarrow> ''graph'' | Private \<Rightarrow> ''private'')"

record RequestOptions =
  api :: "ApiType option"
  rateLimitCategory :: "RateLimitCategory option"

text \<open>\<open>ApiError\<close>. The declared type of \<open>code\<close> and \<open>message\<close> is string, but
  \<open>handleApiError\<close> copies them from the response body, so they are values.\<close>

record ApiError =
  code :: json
  message :: json
  details :: "(string \<times> json) list option"

text \<open>What a \<open>catch\<close> in the client can receive: the object \<open>handleApiError\<close> throws,
  or the \<open>Error\<close> thrown by the header builders of \<open>InstagramAuth\<close>.\<close>

datatype thrown = ThrownApiError ApiError | ThrownError js_error

record ApiResponse =
  success :: bool
  data :: json
  error :: "thrown option"

text \<open>
  The network transport is axios, outside the repository. Its answer to a request is a
  parameter of the model: the promise is fulfilled with a response, or rejected with an
  axios error (which carries the response when the server answered) or with something
  else. The response interceptor passes a response through and turns a rejection into
  the object \<open>handleApiError\<close> throws.
\<close>

record AxiosResponse =
  status :: int
  resp_data :: json
  resp_headers :: headers

datatype AxiosRejection = AxiosError "AxiosResponse option" string | NotAxiosError

datatype AxiosOutcome = Fulfilled AxiosResponse | Rejected AxiosRejection

datatype verb = GET | POST | DELETE

record Request =
  req_verb :: verb
  req_api :: ApiType
  req_endpoint :: string
  req_params :: json
  req_body :: json
  req_headers :: headers

text \<open>The client object. \<open>sent\<close> is not a field of the source: it records, in order,
  every request handed to the transport.\<close>

record InstagramClient =
  auth :: InstagramAuth
  rateLimiter :: RateLimiter
  sent :: "Request list"

definition new_InstagramClient :: "InstagramConfig \<Rightarrow> (RateLimitCategory \<Rightarrow> int) \<Rightarrow> InstagramClient" where
  "new_InstagramClient cfg now =
     \<lparr>auth = new_InstagramAuth cfg,
      rateLimiter = new_RateLimiter (rate_limit_enabled cfg) now,
      sent = []\<rparr>"

definition opt_json :: "string option \<Rightarrow> json" where
  "opt_json v = (case v of None \<Rightarrow> JUndefined | Some s \<Rightarrow> JStr s)"

definition handleApiError :: "AxiosRejection \<Rightarrow> ApiType \<Rightarrow> ApiError" where
  "handleApiError err a =
     (case err of
        NotAxiosError \<Rightarrow>
          \<lparr>code = JStr ''UNKNOWN_ERROR'',
           message = JStr (''Une erreur inconnue s'' @ [CHR 0x27] @ ''est produite''),
           details = Some [(''api'', JStr (api_name a))]\<rparr>
      | AxiosError response msg \<Rightarrow>
          let st = (case response of None \<Rightarrow> JUndefined | Some r \<Rightarrow> JNum (Num (status r)));
              dat = (case response of None \<Rightarrow> JUndefined | Some r \<Rightarrow> resp_data r)
          in if st = JNum (Num 429) then
               \<lparr>code = JStr ''RATE_LIMIT_EXCEEDED'',
                message = JStr (''Limite de requ'' @ [CHR 0xEA] @ ''tes atteinte. R'' @ [CHR 0xE9] @
                                ''essayez plus tard.''),
                details = Some [(''api'', JStr (api_name a)),
                                (''retry_after'',
                                 (case response of
                                    None \<Rightarrow> JUndefined
                                  | Some r \<Rightarrow> opt_json (header (resp_headers r) ''retry-after'')))]\<rparr>
             else if st = JNum (Num 401) \<or> st = JNum (Num 403) then
               \<lparr>code = JStr ''AUTH_ERROR'',
                message = JStr (''Erreur d'' @ [CHR 0x27] @ ''authentification. V'' @ [CHR 0xE9] @
                                ''rifiez vos tokens.''),
                details = Some [(''api'', JStr (api_name a)), (''status'', st)]\<rparr>
             else if truthy (field ''error'' dat) then
               \<lparr>code = or_else (field ''code'' (field ''error'' dat)) (JStr ''API_ERROR''),
                message = or_else (field ''message'' (field ''error'' dat))
                            (JStr ''Erreur API Instagram''),
                details = Some (obj_assign [(''api'', JStr (api_name a))]
                                  (spread_props (field ''error'' dat)))\<rparr>
             else
               \<lparr>code = JStr ''REQUEST_FAILED'',
                message = JStr msg,
                details = Some [(''api'', JStr (api_name a)), (''status'', st)]\<rparr>)"

text \<open>The clock readings of one client call, in the order the source takes them:
  the check and the reset inside \<open>canExecute\<close>, the one of \<open>getWaitTimeFormatted\<close>,
  the check and the reset inside \<open>consume\<close>.\<close>

record Readings =
  t_check :: int
  t_check_reset :: int
  t_wait :: int
  t_consume :: int
  t_consume_reset :: int

text \<open>The two shapes of result the client builds: \<open>{ success: true, data }\<close> and
  \<open>{ success: false, error }\<close>.\<close>

definition success_response :: "json \<Rightarrow> ApiResponse" where
  "success_response body = \<lparr>success = True, data = body, error = None\<rparr>"

definition failure_response :: "thrown \<Rightarrow> ApiResponse" where
  "failure_response e = \<lparr>success = False, data = JUndefined, error = Some e\<rparr>"

definition rate_limit_local :: "string \<Rightarrow> ApiResponse" where
  "rate_limit_local waitTime =
     failure_response (ThrownApiError
        \<lparr>code = JStr ''RATE_LIMIT_LOCAL'',
         message = JStr (''Rate limit local atteint. R'' @ [CHR 0xE9] @ ''essayez dans '' @ waitTime),
         details = None\<rparr>)"

definition api_headers :: "ApiType \<Rightarrow> InstagramAuth \<Rightarrow> js_error + headers" where
  "api_headers a au = (case a of Graph \<Rightarrow> getGraphApiHeaders au | Private \<Rightarrow> getPrivateApiHeaders au)"

definition params_obj :: "(string \<times> json) list option \<Rightarrow> json" where
  "params_obj ps = (case ps of None \<Rightarrow> JUndefined | Some fs \<Rightarrow> JObj fs)"

text \<open>\<open>{ ...params, access_token: token }\<close>\<close>

definition with_access_token :: "(string \<times> json) list option \<Rightarrow> InstagramAuth \<Rightarrow> json" where
  "with_access_token ps au =
     JObj (obj_set ''access_token'' (opt_json (getGraphApiToken au))
             (case ps of None \<Rightarrow> [] | Some fs \<Rightarrow> fs))"

text \<open>The defaults of the destructured options:
  \<open>const { api = 'graph', rateLimitCategory = ... } = options\<close>.\<close>

definition api_of :: "RequestOptions \<Rightarrow> ApiType" where
  "api_of options = (case api options of None \<Rightarrow> Graph | Some a \<Rightarrow> a)"

definition category_of :: "RateLimitCategory \<Rightarrow> RequestOptions \<Rightarrow> RateLimitCategory" where
  "category_of dflt options = (case rateLimitCategory options of None \<Rightarrow> dflt | Some c \<Rightarrow> c)"

text \<open>The three verbs share their shape: the quota check, then inside \<open>try\<close> the
  headers, the request, and on a fulfilled promise the bookkeeping; every throw is
  caught and returned. \<open>net\<close> is the transport's answer to the request.\<close>

definition get ::
  "(Request \<Rightarrow> AxiosOutcome) \<Rightarrow> Readings \<Rightarrow> string \<Rightarrow> (string \<times> json) list option \<Rightarrow>
   RequestOptions \<Rightarrow> InstagramClient \<Rightarrow> ApiResponse \<times> InstagramClient" where
  "get net rd endpoint params options cl =
     (let a = api_of options;
          category = category_of Read options;
          (ok, rl1) = canExecute (t_check rd) (t_check_reset rd) category (rateLimiter cl)
      in if \<not> ok then
           (rate_limit_local (getWaitTimeFormatted (t_wait rd) category rl1),
            cl\<lparr>rateLimiter := rl1\<rparr>)
         else
           case api_headers a (auth cl) of
             Inl e \<Rightarrow>
               (failure_response (ThrownError e), cl\<lparr>rateLimiter := rl1\<rparr>)
           | Inr hs \<Rightarrow>
               let queryParams = (if a = Graph then with_access_token params (auth cl)
                                  else params_obj params);
                   req = \<lparr>req_verb = GET, req_api = a, req_endpoint = endpoint,
                          req_params = queryParams, req_body = JUndefined, req_headers = hs\<rparr>;
                   cl1 = cl\<lparr>rateLimiter := rl1, sent := sent cl @ [req]\<rparr>
               in case net req of
                    Rejected err \<Rightarrow>
                      (failure_response (ThrownApiError (handleApiError err a)), cl1)
                  | Fulfilled response \<Rightarrow>
                      let (_, rl2) = consume (t_consume rd) (t_consume_reset rd) category rl1;
                          rl3 = updateFromHeaders category (resp_headers response) rl2
                      in (success_response (resp_data response), cl1\<lparr>rateLimiter := rl3\<rparr>))"

definition post ::
  "(Request \<Rightarrow> AxiosOutcome) \<Rightarrow> Readings \<Rightarrow> string \<Rightarrow> (string \<times> json) list option \<Rightarrow>
   RequestOptions \<Rightarrow> InstagramClient \<Rightarrow> ApiResponse \<times> InstagramClient" where
  "post net rd endpoint dat options cl =
     (let a = api_of options;
          category = category_of Write options;
          (ok, rl1) = canExecute (t_check rd) (t_check_reset rd) category (rateLimiter cl)
      in if \<not> ok then
           (rate_limit_local (getWaitTimeFormatted (t_wait rd) category rl1),
            cl\<lparr>rateLimiter := rl1\<rparr>)
         else
           case api_headers a (auth cl) of
             Inl e \<Rightarrow>
               (failure_response (ThrownError e), cl\<lparr>rateLimiter := rl1\<rparr>)
           | Inr hs \<Rightarrow>
               let postData = (if a = Graph then with_access_token dat (auth cl)
                               else params_obj dat);
                   req = \<lparr>req_verb = POST, req_api = a, req_endpoint = endpoint,
                          req_params = JUndefined, req_body = postData, req_headers = hs\<rparr>;
                   cl1 = cl\<lparr>rateLimiter := rl1, sent := sent cl @ [req]\<rparr>
               in case net req of
                    Rejected err \<Rightarrow>
                      (failure_response (ThrownApiError (handleApiError err a)), cl1)
                  | Fulfilled response \<Rightarrow>
                      let (_, rl2) = consume (t_consume rd) (t_consume_reset rd) category rl1;
                          rl3 = updateFromHeaders category (resp_headers response) rl2
                      in (success_response (resp_data response), cl1\<lparr>rateLimiter := rl3\<rparr>))"

text \<open>\<open>delete\<close> (named \<open>delete_request\<close> here) consumes a permit and returns; it
  does not read the response headers.\<close>

definition delete_request ::
  "(Request \<Rightarrow> AxiosOutcome) \<Rightarrow> Readings \<Rightarrow> string \<Rightarrow>
   RequestOptions \<Rightarrow> InstagramClient \<Rightarrow> ApiResponse \<times> InstagramClient" where
  "delete_request net rd endpoint options cl =
     (let a = api_of options;
          category = category_of Write options;
          (ok, rl1) = canExecute (t_check rd) (t_check_reset rd) category (rateLimiter cl)
      in if \<not> ok then
           (rate_limit_local (getWaitTimeFormatted (t_wait rd) category rl1),
            cl\<lparr>rateLimiter := rl1\<rparr>)
         else
           case api_headers a (auth cl) of
             Inl e \<Rightarrow>
               (failure_response (ThrownError e), cl\<lparr>rateLimiter := rl1\<rparr>)
           | Inr hs \<Rightarrow>
               let req = \<lparr>req_verb = DELETE, req_api = a, req_endpoint = endpoint,
                          req_params = (if a = Graph
                                        then JObj [(''access_token'', opt_json (getGraphApiToken (auth cl)))]
                                        else JUndefined),
                          req_body = JUndefined, req_headers = hs\<rparr>;
                   cl1 = cl\<lparr>rateLimiter := rl1, sent := sent cl @ [req]\<rparr>
               in case net req of
                    Rejected err \<Rightarrow>
                      (failure_response (ThrownApiError (handleApiError err a)), cl1)
                  | Fulfilled response \<Rightarrow>
                      let (_, rl2) = consume (t_consume rd) (t_consume_reset rd) category rl1
                      in (success_response (resp_data response), cl1\<lparr>rateLimiter := rl2\<rparr>))"

section \<open>The media-processing polling loops\<close>

text \<open>
  \<open>waitForMediaProcessing\<close> (tools/content/posts.ts), \<open>waitForVideoProcessing\<close> (the
  reels tools) and \<open>waitForProcessing\<close> (the stories tools) are the same loop with
  different constants: at most \<open>maxAttempts\<close> rounds, each a \<open>client.get\<close> of the
  container's status, ended by \<open>FINISHED\<close> (true) or \<open>ERROR\<close> (false), with a fixed
  sleep after every other answer, and \<open>false\<close> after the last round.
  \<open>net i\<close> and \<open>rd i\<close> are the transport's answer and the clock readings of round
  \<open>i\<close>. \<open>seen\<close> and \<open>slept_ms\<close> are not in the source: they record the status codes
  read, in order, and the total time slept.
\<close>

record PollState =
  poll_client :: InstagramClient
  seen :: "json list"
  slept_ms :: nat

definition terminal :: "json \<Rightarrow> bool" where
  "terminal status_code = (status_code = JStr ''FINISHED'' \<or> status_code = JStr ''ERROR'')"

function poll_status ::
  "nat \<Rightarrow> string \<Rightarrow> (nat \<Rightarrow> Request \<Rightarrow> AxiosOutcome) \<Rightarrow> (nat \<Rightarrow> Readings) \<Rightarrow> string \<Rightarrow>
   nat \<Rightarrow> nat \<Rightarrow> PollState \<Rightarrow> bool \<times> PollState" where
  "poll_status delay flds net rd containerId maxAttempts i ps =
     (if i < maxAttempts then
        let (result, cl1) = get (net i) (rd i) (''/'' @ containerId)
                              (Some [(''fields'', JStr flds)])
                              \<lparr>api = None, rateLimitCategory = None\<rparr> (poll_client ps);
            status_code = field ''status_code'' (data result);
            ps1 = ps\<lparr>poll_client := cl1, seen := seen ps @ [status_code]\<rparr>
        in if status_code = JStr ''FINISHED'' then (True, ps1)
           else if status_code = JStr ''ERROR'' then (False, ps1)
           else poll_status delay flds net rd containerId maxAttempts (i + 1)
                  (ps1\<lparr>slept_ms := slept_ms ps1 + delay\<rparr>)
      else (False, ps))"
  by pat_completeness auto
termination
  by (relation "measure (\<lambda>(delay, flds, net, rd, containerId, maxAttempts, i, ps). maxAttempts - i)") auto

declare poll_status.simps [simp del]

definition waitForMediaProcessing ::
  "(nat \<Rightarrow> Request \<Rightarrow> AxiosOutcome) \<Rightarrow> (nat \<Rightarrow> Readings) \<Rightarrow> string \<Rightarrow> nat option \<Rightarrow>
   InstagramClient \<Rightarrow> bool \<times> PollState" where
  "waitForMediaProcessing net rd containerId maxAttempts cl =
     poll_status 2000 ''status_code'' net rd containerId
       (case maxAttempts of None \<Rightarrow> 30 | Some m \<Rightarrow> m) 0
       \<lparr>poll_client = cl, seen = [], slept_ms = 0\<rparr>"

definition waitForVideoProcessing ::
  "(nat \<Rightarrow> Request \<Rightarrow> AxiosOutcome) \<Rightarrow> (nat \<Rightarrow> Readings) \<Rightarrow> string \<Rightarrow> nat option \<Rightarrow>
   InstagramClient \<Rightarrow> bool \<times> PollState" where
  "waitForVideoProcessing net rd containerId maxAttempts cl =
     poll_status 3000 ''status_code,status'' net rd containerId
       (case maxAttempts of None \<Rightarrow> 60 | Some m \<Rightarrow> m) 0
       \<lparr>poll_client = cl, seen = [], slept_ms = 0\<rparr>"

definition waitForProcessing ::
  "(nat \<Rightarrow> Request \<Rightarrow> AxiosOutcome) \<Rightarrow> (nat \<Rightarrow> Readings) \<Rightarrow> string \<Rightarrow> nat option \<Rightarrow>
   InstagramClient \<Rightarrow> bool \<times> PollState" where
  "waitForProcessing net rd containerId maxAttempts cl =
     poll_status 1500 ''status_code'' net rd containerId
       (case maxAttempts of None \<Rightarrow> 20 | Some m \<Rightarrow> m) 0
       \<lparr>poll_client = cl, seen = [], slept_ms = 0\<rparr>"

text \<open>What a bounded poll returns: at most \<open>ceiling\<close> status checks, none but the
  last one terminal, the result true exactly when the last check read \<open>FINISHED\<close>,
  one sleep of \<open>delay\<close> per non-terminal check; and when no check was terminal, the
  result is false after exactly \<open>ceiling\<close> checks.\<close>

definition bounded_poll :: "nat \<Rightarrow> nat \<Rightarrow> bool \<times> PollState \<Rightarrow> bool" where
  "bounded_poll delay ceiling out =
     (case out of (r, ps) \<Rightarrow>
        length (seen ps) \<le> ceiling \<and>
        list_all (\<lambda>s. \<not> terminal s) (butlast (seen ps)) \<and>
        r = (seen ps \<noteq> [] \<and> last (seen ps) = JStr ''FINISHED'') \<and>
        slept_ms ps = delay * length (filter (\<lambda>s. \<not> terminal s) (seen ps)) \<and>
        (if seen ps = [] \<or> \<not> terminal (last (seen ps))
         then \<not> r \<and> length (seen ps) = ceiling \<and> slept_ms ps = delay * ceiling
         else True))"

text \<open>A configuration with a Graph API token only, for concrete runs.\<close>

definition demo_config :: InstagramConfig where
  "demo_config = \<lparr>config_access_token = Some ''tok'', config_session_id = None,
      config_business_account_id = None, config_api_version = ''v18.0'',
      rate_limit_enabled = True\<rparr>"

text \<open>A configuration with a Private API session only.\<close>

definition demo_session_config :: InstagramConfig where
  "demo_session_config = \<lparr>config_access_token = None, config_session_id = Some ''Aa'',
      config_business_account_id = None, config_api_version = ''v18.0'',
      rate_limit_enabled = True\<rparr>"

text \<open>A client whose write bucket the server has reported empty, the clock readings
  of a call one second after construction, and a call without options.\<close>

definition exhausted_client :: InstagramClient where
  "exhausted_client =
     (new_InstagramClient demo_config (\<lambda>_. 0))
       \<lparr>rateLimiter := updateFromHeaders Write [(''x-ratelimit-remaining'', ''0'')]
                         (new_RateLimiter True (\<lambda>_. 0))\<rparr>"

definition at_1000 :: Readings where
  "at_1000 = \<lparr>t_check = 1000, t_check_reset = 1000, t_wait = 1000, t_consume = 1000,
              t_consume_reset = 1000\<rparr>"

definition no_options :: RequestOptions where
  "no_options = \<lparr>api = None, rateLimitCategory = None\<rparr>"

section \<open>Runs of limiter operations and the bounds on a bucket\<close>

text \<open>The operations of the limiter that do not take server headers, as values, so
  that a property can range over every sequence of them.\<close>

datatype limiter_op =
  CanExecute int int RateLimitCategory
| Consume int int RateLimitCategory
| SetEnabled bool

fun apply_op :: "limiter_op \<Rightarrow> RateLimiter \<Rightarrow> RateLimiter" where
  "apply_op (CanExecute now now_reset category) st = snd (canExecute now now_reset category st)"
| "apply_op (Consume now now_reset category) st = snd (consume now now_reset category st)"
| "apply_op (SetEnabled en) st = setEnabled en st"

definition run_ops :: "limiter_op list \<Rightarrow> RateLimiter \<Rightarrow> RateLimiter" where
  "run_ops ops st = foldl (\<lambda>s oper. apply_op oper s) st ops"

text \<open>A bucket that still has its configured capacity and a count within it.\<close>

definition bucket_ok :: "RateLimitCategory \<Rightarrow> RateLimitBucket \<Rightarrow> bool" where
  "bucket_ok c b =
     (limit b = Num (cfg_limit (DEFAULT_LIMITS c)) \<and>
      (case remaining b of NaN \<Rightarrow> False | Num n \<Rightarrow> 0 \<le> n \<and> n \<le> cfg_limit (DEFAULT_LIMITS c)))"

definition limiter_ok :: "RateLimiter \<Rightarrow> bool" where
  "limiter_ok st =
     list_all (\<lambda>c. case buckets st c of None \<Rightarrow> False | Some b \<Rightarrow> bucket_ok c b) categories"

text \<open>\<open>0 \<le> remaining \<le> capacity\<close> on the fields of a bucket.\<close>

definition within_capacity :: "RateLimitBucket \<Rightarrow> bool" where
  "within_capacity b =
     (case remaining b of
        NaN \<Rightarrow> False
      | Num n \<Rightarrow> (case limit b of NaN \<Rightarrow> False | Num k \<Rightarrow> 0 \<le> n \<and> n \<le> k))"

section \<open>Properties of the rate limiter\<close>

lemma buckets_put_bucket [simp]: "buckets (put_bucket c b st) = (buckets st)(c \<mapsto> b)"
  by (simp add: put_bucket_def)

lemma enabled_put_bucket [simp]: "enabled (put_bucket c b st) = enabled st"
  by (simp add: put_bucket_def)

lemma put_bucket_twice [simp]: "put_bucket c b (put_bucket c b' st) = put_bucket c b st"
  by (simp add: put_bucket_def)

lemma put_bucket_same: "buckets st c = Some b \<Longrightarrow> put_bucket c b st = st"
  by (simp add: put_bucket_def fun_upd_idem)

lemma new_RateLimiter_bucket:
  "buckets (new_RateLimiter en now) c =
     Some \<lparr>limit = Num (cfg_limit (DEFAULT_LIMITS c)),
           remaining = Num (cfg_limit (DEFAULT_LIMITS c)),
           reset_at = Num (now c + cfg_window_seconds (DEFAULT_LIMITS c) * 1000),
           window_seconds = Num (cfg_window_seconds (DEFAULT_LIMITS c))\<rparr>"
  by (cases c) (simp_all add: new_RateLimiter_def initializeBuckets_def categories_def)

lemma new_RateLimiter_enabled: "enabled (new_RateLimiter en now) = en"
  by (simp add: new_RateLimiter_def initializeBuckets_def categories_def)

text \<open>Inside the window (every reading before \<open>reset_at\<close>) each \<open>consume\<close> on an
  enabled limiter takes one permit, as long as permits are left.\<close>

lemma consume_all_within_window:
  assumes "enabled st" and "buckets st c = Some b" and "remaining b = Num n"
    and "reset_at b = Num r" and "int (length ts) \<le> n"
    and "\<forall>(t, t') \<in> set ts. t < r"
  shows "consume_all ts c st =
           (replicate (length ts) True,
            put_bucket c (b\<lparr>remaining := Num (n - int (length ts))\<rparr>) st)"
  using assms
proof (induction ts arbitrary: st b n)
  case Nil
  then show ?case by (simp add: put_bucket_same)
next
  case (Cons p ts)
  obtain t t' where p: "p = (t, t')" by (cases p)
  let ?b1 = "b\<lparr>remaining := Num (n - 1)\<rparr>"
  let ?st1 = "put_bucket c ?b1 st"
  from Cons.prems p have step: "consume t t' c st = (True, ?st1)"
    by (simp add: consume_def)
  have "consume_all ts c ?st1 =
          (replicate (length ts) True,
           put_bucket c (?b1\<lparr>remaining := Num ((n - 1) - int (length ts))\<rparr>) ?st1)"
    using Cons.prems by (intro Cons.IH) auto
  moreover have "n - 1 - int (length ts) = n - int (length (p # ts))" by simp
  ultimately show ?case using step p by simp
qed


subsection \<open>C1: a fresh bucket grants exactly its capacity\<close>

text \<open>
  C1. For every category, with rate limiting enabled and every clock reading inside the
  first window (no resync): on a freshly constructed limiter, \<open>consume\<close> called exactly
  capacity times returns \<open>true\<close> each time; after that \<open>canExecute\<close> returns \<open>false\<close>
  and the next \<open>consume\<close> returns \<open>false\<close>, both leaving the limiter as it is.
\<close>

theorem C1_consume_capacity_then_refused:
  assumes "length ts = nat (cfg_limit (DEFAULT_LIMITS c))"
    and "\<forall>(t, t') \<in> set ts. t < now c + cfg_window_seconds (DEFAULT_LIMITS c) * 1000"
    and "t_can < now c + cfg_window_seconds (DEFAULT_LIMITS c) * 1000"
    and "t_last < now c + cfg_window_seconds (DEFAULT_LIMITS c) * 1000"
  shows "case consume_all ts c (new_RateLimiter True now) of
           (rs, st1) \<Rightarrow>
             rs = replicate (nat (cfg_limit (DEFAULT_LIMITS c))) True \<and>
             canExecute t_can t_can' c st1 = (False, st1) \<and>
             consume t_last t_last' c st1 = (False, st1)"
proof -
  let ?st = "new_RateLimiter True now"
  let ?cap = "cfg_limit (DEFAULT_LIMITS c)"
  let ?r = "now c + cfg_window_seconds (DEFAULT_LIMITS c) * 1000"
  obtain b where b: "buckets ?st c = Some b" "remaining b = Num ?cap" "reset_at b = Num ?r"
    by (simp add: new_RateLimiter_bucket)
  have cap: "0 \<le> ?cap" by (cases c) simp_all
  have len: "int (length ts) = ?cap" using assms(1) cap by simp
  let ?st1 = "put_bucket c (b\<lparr>remaining := Num (?cap - int (length ts))\<rparr>) ?st"
  have run: "consume_all ts c ?st = (replicate (length ts) True, ?st1)"
    using b len assms(2) by (intro consume_all_within_window) (simp_all add: new_RateLimiter_enabled)
  have can: "canExecute t_can t_can' c ?st1 = (False, ?st1)"
    using b len assms(3) by (simp add: canExecute_def new_RateLimiter_enabled)
  have last: "consume t_last t_last' c ?st1 = (False, ?st1)"
    using b len assms(4) by (simp add: consume_def new_RateLimiter_enabled)
  show ?thesis using run can last assms(1) by simp
qed

theorem C1_witness:
  "case consume_all (replicate 25 (10, 10)) Write (new_RateLimiter True (\<lambda>_. 0)) of
     (rs, st1) \<Rightarrow>
       rs = replicate 25 True \<and>
       canExecute 20 20 Write st1 = (False, st1) \<and>
       consume 30 30 Write st1 = (False, st1)"
  using C1_consume_capacity_then_refused
    [of "replicate 25 (10, 10)" Write "\<lambda>_. 0" 20 30 20 30]
  by simp


subsection \<open>C2: the lazy refresh of canExecute\<close>

lemma cfg_limit_pos: "0 < cfg_limit (DEFAULT_LIMITS c)"
  by (cases c) simp_all

lemma resetBucket_Some:
  "buckets st c = Some b \<Longrightarrow>
   resetBucket now c st =
     put_bucket c (b\<lparr>remaining := Num (cfg_limit (DEFAULT_LIMITS c)),
                     reset_at := Num (now + cfg_window_seconds (DEFAULT_LIMITS c) * 1000)\<rparr>) st"
  by (simp add: resetBucket_def Let_def)

text \<open>
  C2, as the code has it. With rate limiting enabled, \<open>canExecute\<close> refreshes the
  bucket when the clock reading is at or past \<open>reset_at\<close>: \<open>remaining\<close> becomes the
  limit of the category in \<open>DEFAULT_LIMITS\<close> and \<open>reset_at\<close> the reading taken at the
  reset plus the default window; otherwise the limiter is unchanged. The result is
  \<open>remaining > 0\<close> on the bucket after that step. When the bucket still has its default
  limit, the refreshed bucket has \<open>remaining = limit\<close>.
\<close>

theorem C2_canExecute_lazy_refresh:
  assumes "enabled st" and "buckets st c = Some b"
  shows "case canExecute now now' c st of
           (r, st') \<Rightarrow>
             st' = (if js_ge (Num now) (reset_at b)
                    then put_bucket c
                           (b\<lparr>remaining := Num (cfg_limit (DEFAULT_LIMITS c)),
                              reset_at := Num (now' + cfg_window_seconds (DEFAULT_LIMITS c) * 1000)\<rparr>) st
                    else st) \<and>
             (case buckets st' c of
                None \<Rightarrow> False
              | Some b' \<Rightarrow>
                  r = js_gt (remaining b') (Num 0) \<and>
                  (js_ge (Num now) (reset_at b) \<and> limit b = Num (cfg_limit (DEFAULT_LIMITS c))
                     \<longrightarrow> remaining b' = limit b'))"
  using assms cfg_limit_pos [of c]
  by (simp add: canExecute_def resetBucket_Some)

theorem C2_witness:
  "canExecute 3600000 3600007 Read (snd (consume 10 10 Read (new_RateLimiter True (\<lambda>_. 0)))) =
     (True, put_bucket Read \<lparr>limit = Num 200, remaining = Num 200, reset_at = Num 7200007,
                            window_seconds = Num 3600\<rparr>
              (snd (consume 10 10 Read (new_RateLimiter True (\<lambda>_. 0)))))"
  using C2_canExecute_lazy_refresh
    [of "snd (consume 10 10 Read (new_RateLimiter True (\<lambda>_. 0)))" Read
        "\<lparr>limit = Num 200, remaining = Num 199, reset_at = Num 3600000, window_seconds = Num 3600\<rparr>"
        3600000 3600007]
  by (simp add: consume_def new_RateLimiter_bucket new_RateLimiter_enabled split: prod.splits)

text \<open>
  C2 as stated fails once a resync has overwritten the capacity: the server reports a
  limit of 10, the window elapses, and \<open>canExecute\<close> restores \<open>remaining\<close> to the
  default 200, not to the bucket's capacity 10. The new \<open>reset_at\<close> is the reading at
  the reset (4000000) plus the window, not the old \<open>reset_at\<close> (3600000) plus the window.
\<close>

theorem C2_counterexample:
  "let st = updateFromHeaders Read [(''x-ratelimit-limit'', ''10'')]
              (new_RateLimiter True (\<lambda>_. 0));
       st' = snd (canExecute 4000000 4000000 Read st)
   in enabled st \<and>
      map_option reset_at (buckets st Read) = Some (Num 3600000) \<and>
      map_option limit (buckets st' Read) = Some (Num 10) \<and>
      map_option remaining (buckets st' Read) = Some (Num 200) \<and>
      map_option reset_at (buckets st' Read) = Some (Num 7600000)"
  by (simp add: updateFromHeaders_def header_def new_RateLimiter_bucket new_RateLimiter_enabled
      canExecute_def resetBucket_def parseInt_def is_ws_def is_digit_def digits_val_def digit_val_def)

subsection \<open>C10: what canExecute may change\<close>

text \<open>
  C10, as the code has it. \<open>canExecute\<close> leaves the switch and every other bucket as
  they are; the bucket of its category is either unchanged or refreshed (\<open>remaining\<close>
  set to the default limit of the category, \<open>reset_at\<close> to the reset reading plus the
  default window), and \<open>limit\<close> and \<open>window_seconds\<close> never change. \<open>remaining\<close>
  does not decrease when it was at most the default limit before the call.
\<close>

theorem C10_canExecute_frame:
  "case canExecute now now' c st of
     (r, st') \<Rightarrow>
       enabled st' = enabled st \<and>
       (\<forall>c'. c' \<noteq> c \<longrightarrow> buckets st' c' = buckets st c') \<and>
       (case buckets st c of
          None \<Rightarrow> buckets st' c = None
        | Some b \<Rightarrow>
            (case buckets st' c of
               None \<Rightarrow> False
             | Some b' \<Rightarrow>
                 limit b' = limit b \<and> window_seconds b' = window_seconds b \<and>
                 (b' = b \<or>
                  b' = b\<lparr>remaining := Num (cfg_limit (DEFAULT_LIMITS c)),
                         reset_at := Num (now' + cfg_window_seconds (DEFAULT_LIMITS c) * 1000)\<rparr>) \<and>
                 (js_le (remaining b) (Num (cfg_limit (DEFAULT_LIMITS c)))
                    \<longrightarrow> js_ge (remaining b') (remaining b))))"
proof (cases "buckets st c")
  case None
  then show ?thesis by (simp add: canExecute_def)
next
  case (Some b)
  show ?thesis
  proof (cases "remaining b")
    case NaN
    with Some show ?thesis by (simp add: canExecute_def resetBucket_Some)
  next
    case (Num n)
    with Some show ?thesis by (simp add: canExecute_def resetBucket_Some)
  qed
qed

theorem C10_witness:
  "case canExecute 3600000 3600007 Read (snd (consume 10 10 Read (new_RateLimiter True (\<lambda>_. 0)))) of
     (r, st') \<Rightarrow>
       enabled st' \<and>
       buckets st' Write = buckets (new_RateLimiter True (\<lambda>_. 0)) Write \<and>
       buckets st' Read = Some \<lparr>limit = Num 200, remaining = Num 200, reset_at = Num 7200007,
                                window_seconds = Num 3600\<rparr>"
  using C10_canExecute_frame
    [where now = 3600000 and now' = 3600007 and c = Read
       and st = "snd (consume 10 10 Read (new_RateLimiter True (\<lambda>_. 0)))"]
  by (simp add: consume_def canExecute_def resetBucket_def new_RateLimiter_bucket new_RateLimiter_enabled split: prod.splits)

text \<open>
  C10 as stated fails after a resync that reports more than the default: with
  \<open>remaining = 400\<close> and \<open>limit = 500\<close> from the server, the refresh inside
  \<open>canExecute\<close> lowers \<open>remaining\<close> to the default 200, which is not the bucket's
  capacity either.
\<close>

theorem C10_counterexample:
  "let st = updateFromHeaders Read [(''x-ratelimit-remaining'', ''400''), (''x-ratelimit-limit'', ''500'')]
              (new_RateLimiter True (\<lambda>_. 0));
       st' = snd (canExecute 3600000 3600000 Read st)
   in map_option remaining (buckets st Read) = Some (Num 400) \<and>
      map_option limit (buckets st Read) = Some (Num 500) \<and>
      map_option remaining (buckets st' Read) = Some (Num 200) \<and>
      map_option limit (buckets st' Read) = Some (Num 500)"
  by (simp add: updateFromHeaders_def header_def new_RateLimiter_bucket new_RateLimiter_enabled
      canExecute_def resetBucket_def parseInt_def is_ws_def is_digit_def digits_val_def digit_val_def)

subsection \<open>C4: the bounds on remaining\<close>

lemma limiter_okD:
  assumes "limiter_ok st"
  shows "\<exists>b. buckets st c = Some b \<and> bucket_ok c b"
proof -
  have "c \<in> set categories" by (cases c) (simp_all add: categories_def)
  with assms have "case buckets st c of None \<Rightarrow> False | Some b \<Rightarrow> bucket_ok c b"
    by (simp add: limiter_ok_def list_all_iff)
  then show ?thesis by (cases "buckets st c") simp_all
qed

lemma limiter_okI:
  assumes "\<And>c. \<exists>b. buckets st c = Some b \<and> bucket_ok c b"
  shows "limiter_ok st"
  unfolding limiter_ok_def list_all_iff
proof
  fix c assume "c \<in> set categories"
  from assms [of c] show "case buckets st c of None \<Rightarrow> False | Some b \<Rightarrow> bucket_ok c b"
    by auto
qed

lemma limiter_ok_put_bucket:
  assumes "limiter_ok st" and "bucket_ok c b"
  shows "limiter_ok (put_bucket c b st)"
proof (rule limiter_okI)
  fix c'
  show "\<exists>b'. buckets (put_bucket c b st) c' = Some b' \<and> bucket_ok c' b'"
    using limiter_okD [OF assms(1), of c'] assms(2) by (cases "c' = c") auto
qed

lemma limiter_ok_new: "limiter_ok (new_RateLimiter en now)"
proof (rule limiter_okI)
  fix c
  show "\<exists>b. buckets (new_RateLimiter en now) c = Some b \<and> bucket_ok c b"
    using cfg_limit_pos [of c] by (simp add: new_RateLimiter_bucket bucket_ok_def)
qed

lemma limiter_ok_resetBucket:
  assumes "limiter_ok st"
  shows "limiter_ok (resetBucket now c st)"
proof -
  obtain b where b: "buckets st c = Some b" "bucket_ok c b"
    using limiter_okD [OF assms] by blast
  have "bucket_ok c (b\<lparr>remaining := Num (cfg_limit (DEFAULT_LIMITS c)),
                       reset_at := Num (now + cfg_window_seconds (DEFAULT_LIMITS c) * 1000)\<rparr>)"
    using b(2) cfg_limit_pos [of c] by (simp add: bucket_ok_def)
  then show ?thesis
    using b(1) assms by (simp add: resetBucket_def Let_def limiter_ok_put_bucket)
qed

lemma limiter_ok_canExecute: "limiter_ok st \<Longrightarrow> limiter_ok (snd (canExecute now now' c st))"
  by (auto simp: canExecute_def limiter_ok_resetBucket split: option.splits)

lemma limiter_ok_take_permit:
  assumes "limiter_ok st"
  shows "limiter_ok (snd (case buckets st c of
               None \<Rightarrow> (True, st)
             | Some bucket \<Rightarrow>
                 if js_le (remaining bucket) (Num 0) then (False, st)
                 else (True, put_bucket c
                         (bucket\<lparr>remaining := js_sub (remaining bucket) (Num 1)\<rparr>) st)))"
proof -
  obtain b where b: "buckets st c = Some b" "bucket_ok c b"
    using limiter_okD [OF assms] by blast
  then obtain n where n: "remaining b = Num n" "0 \<le> n" "n \<le> cfg_limit (DEFAULT_LIMITS c)"
    by (auto simp: bucket_ok_def split: jsnum.splits)
  show ?thesis
  proof (cases "n \<le> 0")
    case True
    with b n assms show ?thesis by simp
  next
    case False
    with n b(2) have "bucket_ok c (b\<lparr>remaining := js_sub (remaining b) (Num 1)\<rparr>)"
      by (simp add: bucket_ok_def)
    with False b(1) n assms show ?thesis
      by (simp add: limiter_ok_put_bucket)
  qed
qed

lemma limiter_ok_consume:
  assumes "limiter_ok st"
  shows "limiter_ok (snd (consume now now' c st))"
proof (cases "enabled st")
  case False
  with assms show ?thesis by (simp add: consume_def)
next
  case True
  obtain b where b: "buckets st c = Some b"
    using limiter_okD [OF assms] by blast
  let ?st1 = "if js_ge (Num now) (reset_at b) then resetBucket now' c st else st"
  have "limiter_ok ?st1" using assms by (simp add: limiter_ok_resetBucket)
  from limiter_ok_take_permit [OF this, of c] True b show ?thesis
    by (simp add: consume_def Let_def)
qed

lemma limiter_ok_setEnabled: "limiter_ok st \<Longrightarrow> limiter_ok (setEnabled en st)"
  by (simp add: limiter_ok_def setEnabled_def)

lemma limiter_ok_apply_op: "limiter_ok st \<Longrightarrow> limiter_ok (apply_op oper st)"
  by (cases oper) (simp_all add: limiter_ok_canExecute limiter_ok_consume limiter_ok_setEnabled)

lemma limiter_ok_run_ops: "limiter_ok st \<Longrightarrow> limiter_ok (run_ops ops st)"
  unfolding run_ops_def
  by (induction ops arbitrary: st) (simp_all add: limiter_ok_apply_op)


lemma bucket_ok_within_capacity: "bucket_ok c b \<Longrightarrow> within_capacity b"
  by (auto simp: bucket_ok_def within_capacity_def split: jsnum.splits)

lemma updateFromHeaders_remaining:
  assumes "buckets st c = Some b" and "header hs ''x-ratelimit-remaining'' = Some v" and "v \<noteq> []"
  shows "map_option remaining (buckets (updateFromHeaders c hs st) c) = Some (parseInt v)"
  using assms by (simp add: updateFromHeaders_def Let_def split: option.splits)

text \<open>
  C4, as the code has it. After any sequence of \<open>canExecute\<close>, \<open>consume\<close> (with their
  lazy refresh) and \<open>setEnabled\<close> on a freshly constructed limiter, every bucket has
  \<open>0 \<le> remaining \<le> limit\<close>. \<open>updateFromHeaders\<close> is outside this guarantee: a
  non-empty \<open>x-ratelimit-remaining\<close> header replaces \<open>remaining\<close> by what \<open>parseInt\<close>
  returns, whatever the capacity and whatever the other headers.
\<close>

theorem C4_bounds_without_resync:
  "(case buckets (run_ops ops (new_RateLimiter en now)) c of
      None \<Rightarrow> False
    | Some b \<Rightarrow> within_capacity b) \<and>
   (buckets st c = Some b \<and> header hs ''x-ratelimit-remaining'' = Some v \<and> v \<noteq> [] \<longrightarrow>
      map_option remaining (buckets (updateFromHeaders c hs st) c) = Some (parseInt v))"
proof
  have "limiter_ok (run_ops ops (new_RateLimiter en now))"
    by (simp add: limiter_ok_run_ops limiter_ok_new)
  from limiter_okD [OF this, of c]
  show "case buckets (run_ops ops (new_RateLimiter en now)) c of
          None \<Rightarrow> False
        | Some b \<Rightarrow> within_capacity b"
    by (auto simp: bucket_ok_within_capacity)
next
  show "buckets st c = Some b \<and> header hs ''x-ratelimit-remaining'' = Some v \<and> v \<noteq> [] \<longrightarrow>
      map_option remaining (buckets (updateFromHeaders c hs st) c) = Some (parseInt v)"
    by (simp add: updateFromHeaders_remaining)
qed

theorem C4_witness:
  "(case buckets (run_ops [Consume 5 5 Write, CanExecute 4000000 4000001 Write,
                           Consume 4000002 4000002 Write]
                   (new_RateLimiter True (\<lambda>_. 0))) Write of
      None \<Rightarrow> False
    | Some b \<Rightarrow> within_capacity b) \<and>
   map_option remaining
     (buckets (updateFromHeaders Write
                 [(''x-ratelimit-limit'', ''40''), (''x-ratelimit-remaining'', ''7'')]
                 (new_RateLimiter True (\<lambda>_. 0))) Write) = Some (parseInt ''7'')"
  using C4_bounds_without_resync
    [where ops = "[Consume 5 5 Write, CanExecute 4000000 4000001 Write, Consume 4000002 4000002 Write]"
       and en = True and now = "\<lambda>_. 0" and c = Write and st = "new_RateLimiter True (\<lambda>_. 0)"
       and b = "\<lparr>limit = Num 25, remaining = Num 25, reset_at = Num 3600000, window_seconds = Num 3600\<rparr>"
       and v = "''7''"
       and hs = "[(''x-ratelimit-limit'', ''40''), (''x-ratelimit-remaining'', ''7'')]"]
  by (simp add: new_RateLimiter_bucket header_def)

text \<open>
  C4 as stated fails on a resync: the server reports 500 remaining for a bucket of
  capacity 200, and the bucket then has \<open>remaining = 500 > limit = 200\<close>.
\<close>

theorem C4_counterexample:
  "case buckets (updateFromHeaders Read [(''x-ratelimit-remaining'', ''500'')]
                   (new_RateLimiter True (\<lambda>_. 0))) Read of
     None \<Rightarrow> False
   | Some b \<Rightarrow> remaining b = Num 500 \<and> limit b = Num 200 \<and> \<not> within_capacity b"
  by (simp add: updateFromHeaders_def header_def new_RateLimiter_bucket parseInt_def
      is_ws_def is_digit_def digits_val_def digit_val_def within_capacity_def)

section \<open>Properties of the polling loops\<close>

lemma poll_status_trace:
  assumes "poll_status delay flds net rd cid m i ps = (r, ps')"
  shows "\<exists>new. seen ps' = seen ps @ new \<and> length new \<le> m - i \<and>
           (\<forall>s \<in> set (butlast new). \<not> terminal s) \<and>
           (r \<longleftrightarrow> new \<noteq> [] \<and> last new = JStr ''FINISHED'') \<and>
           slept_ms ps' = slept_ms ps + delay * length (filter (\<lambda>s. \<not> terminal s) new) \<and>
           (new = [] \<or> \<not> terminal (last new) \<longrightarrow> length new = m - i)"
  using assms
proof (induction delay flds net rd cid m i ps arbitrary: r ps' rule: poll_status.induct)
  case (1 delay flds net rd cid m i ps)
  show ?case
  proof (cases "i < m")
    case False
    with "1.prems" have "ps' = ps" "r = False"
      by (simp_all add: poll_status.simps [of delay flds net rd cid m i ps])
    with False show ?thesis by (intro exI [of _ "[]"]) simp
  next
    case True
    obtain result cl1 where g: "get (net i) (rd i) (''/'' @ cid) (Some [(''fields'', JStr flds)])
                              \<lparr>api = None, rateLimitCategory = None\<rparr> (poll_client ps) = (result, cl1)"
      by (cases "get (net i) (rd i) (''/'' @ cid) (Some [(''fields'', JStr flds)])
                              \<lparr>api = None, rateLimitCategory = None\<rparr> (poll_client ps)")
    define sc where "sc = field ''status_code'' (data result)"
    define ps1 where "ps1 = ps\<lparr>poll_client := cl1, seen := seen ps @ [sc]\<rparr>"
    show ?thesis
    proof (cases "terminal sc")
      case fin: True
      with "1.prems" True g have "ps' = ps1" "r = (sc = JStr ''FINISHED'')"
        by (auto simp: poll_status.simps [of delay flds net rd cid m i ps] sc_def ps1_def terminal_def)
      with fin True show ?thesis
        by (intro exI [of _ "[sc]"]) (simp add: ps1_def)
    next
      case nonterm: False
      let ?ps2 = "ps1\<lparr>slept_ms := slept_ms ps1 + delay\<rparr>"
      from "1.prems" True g nonterm
      have rec: "poll_status delay flds net rd cid m (i + 1) ?ps2 = (r, ps')"
        by (simp add: poll_status.simps [of delay flds net rd cid m i ps] sc_def ps1_def terminal_def)
      from nonterm have ne: "sc \<noteq> JStr ''FINISHED''" "sc \<noteq> JStr ''ERROR''"
        by (simp_all add: terminal_def)
      from "1.IH" [OF True refl g [symmetric] sc_def ps1_def ne rec]
      obtain new where new: "seen ps' = seen ?ps2 @ new" "length new \<le> m - (i + 1)"
           "\<forall>s \<in> set (butlast new). \<not> terminal s"
           "r \<longleftrightarrow> new \<noteq> [] \<and> last new = JStr ''FINISHED''"
           "slept_ms ps' = slept_ms ?ps2 + delay * length (filter (\<lambda>s. \<not> terminal s) new)"
           "new = [] \<or> \<not> terminal (last new) \<longrightarrow> length new = m - (i + 1)"
        by blast
      show ?thesis
      proof (intro exI [of _ "sc # new"] conjI)
        show "seen ps' = seen ps @ sc # new" using new(1) by (simp add: ps1_def)
        show "length (sc # new) \<le> m - i" using new(2) True by simp
        show "\<forall>s \<in> set (butlast (sc # new)). \<not> terminal s"
          using new(3) nonterm by (auto split: if_splits)
        show "r \<longleftrightarrow> sc # new \<noteq> [] \<and> last (sc # new) = JStr ''FINISHED''"
          using new(4) ne by auto
        show "slept_ms ps' = slept_ms ps + delay * length (filter (\<lambda>s. \<not> terminal s) (sc # new))"
          using new(5) nonterm by (simp add: ps1_def)
        show "sc # new = [] \<or> \<not> terminal (last (sc # new)) \<longrightarrow> length (sc # new) = m - i"
          using new(6) True by (cases "new = []") auto
      qed
    qed
  qed
qed


lemma poll_status_bounded:
  "bounded_poll delay m
     (poll_status delay flds net rd cid m 0 \<lparr>poll_client = cl, seen = [], slept_ms = 0\<rparr>)"
proof -
  obtain r ps' where out:
    "poll_status delay flds net rd cid m 0 \<lparr>poll_client = cl, seen = [], slept_ms = 0\<rparr> = (r, ps')"
    by (cases "poll_status delay flds net rd cid m 0 \<lparr>poll_client = cl, seen = [], slept_ms = 0\<rparr>")
  from poll_status_trace [OF out]
  have tr: "length (seen ps') \<le> m" "\<forall>s \<in> set (butlast (seen ps')). \<not> terminal s"
    "r \<longleftrightarrow> seen ps' \<noteq> [] \<and> last (seen ps') = JStr ''FINISHED''"
    "slept_ms ps' = delay * length (filter (\<lambda>s. \<not> terminal s) (seen ps'))"
    "seen ps' = [] \<or> \<not> terminal (last (seen ps')) \<longrightarrow> length (seen ps') = m"
    by auto
  have all_non: "filter (\<lambda>s. \<not> terminal s) (seen ps') = seen ps'"
    if "seen ps' = [] \<or> \<not> terminal (last (seen ps'))"
  proof (cases "seen ps' = []")
    case True
    then show ?thesis by simp
  next
    case False
    then have "seen ps' = butlast (seen ps') @ [last (seen ps')]" by simp
    then have "set (seen ps') = set (butlast (seen ps')) \<union> {last (seen ps')}"
      by (metis Un_insert_right list.set(1) list.simps(15) set_append sup_bot.right_neutral)
    with tr(2) that False have "\<forall>s \<in> set (seen ps'). \<not> terminal s" by auto
    then show ?thesis by (simp add: filter_id_conv)
  qed
  have fin: "\<not> r" if "seen ps' = [] \<or> \<not> terminal (last (seen ps'))"
    using that tr(3) by (auto simp: terminal_def)
  show ?thesis
    unfolding out bounded_poll_def
    using tr all_non fin by (simp add: list_all_iff)
qed

subsection \<open>C9: every polling loop is bounded and returns\<close>

text \<open>
  C9. Each of the three media-processing polling loops performs at most its attempt
  ceiling of status checks (30, 60 and 20 by default), sleeps its fixed delay (2000,
  3000 and 1500 ms) after each check that is not terminal, and always returns a value:
  when no check reads a terminal status, it returns \<open>false\<close> after exactly the ceiling
  of checks. The loops are total functions of the model, and no branch of them raises.
\<close>

theorem C9_polling_is_bounded:
  "bounded_poll 2000 (case m of None \<Rightarrow> 30 | Some k \<Rightarrow> k) (waitForMediaProcessing net rd cid m cl) \<and>
   bounded_poll 3000 (case m of None \<Rightarrow> 60 | Some k \<Rightarrow> k) (waitForVideoProcessing net rd cid m cl) \<and>
   bounded_poll 1500 (case m of None \<Rightarrow> 20 | Some k \<Rightarrow> k) (waitForProcessing net rd cid m cl)"
  by (simp add: waitForMediaProcessing_def waitForVideoProcessing_def waitForProcessing_def
      poll_status_bounded)


theorem C9_witness:
  "case waitForMediaProcessing
     (\<lambda>i req. Fulfilled \<lparr>status = 200,
         resp_data = JObj [(''status_code'', JStr ''IN_PROGRESS'')], resp_headers = []\<rparr>)
     (\<lambda>i. \<lparr>t_check = 1, t_check_reset = 1, t_wait = 1, t_consume = 1, t_consume_reset = 1\<rparr>)
     ''17'' (Some 2) (new_InstagramClient demo_config (\<lambda>_. 0)) of
    (r, ps) \<Rightarrow> r = False \<and> seen ps = [JStr ''IN_PROGRESS'', JStr ''IN_PROGRESS''] \<and>
       slept_ms ps = 4000 \<and> length (sent (poll_client ps)) = 2"
  using C9_polling_is_bounded [where m = "Some 2" and cid = "''17''"
      and cl = "new_InstagramClient demo_config (\<lambda>_. 0)"
      and rd = "\<lambda>i. \<lparr>t_check = 1, t_check_reset = 1, t_wait = 1, t_consume = 1, t_consume_reset = 1\<rparr>"
      and net = "\<lambda>i req. Fulfilled \<lparr>status = 200,
         resp_data = JObj [(''status_code'', JStr ''IN_PROGRESS'')], resp_headers = []\<rparr>"]
  by (simp add: waitForMediaProcessing_def poll_status.simps get_def api_of_def category_of_def
      canExecute_def consume_def
      new_InstagramClient_def new_RateLimiter_bucket new_RateLimiter_enabled demo_config_def
      api_headers_def getGraphApiHeaders_def getGraphApiToken_def new_InstagramAuth_def
      initializeTokens_def updateFromHeaders_def header_def field_def Let_def
      success_response_def failure_response_def)


section \<open>Properties of the credential store\<close>

lemma truthy_str_iff: "truthy_str v \<longleftrightarrow> (\<exists>s. v = Some s \<and> s \<noteq> [])"
  by (cases v) (simp_all add: truthy_str_def)

lemma demo_session_available:
  "\<not> hasGraphApiAuth (new_InstagramAuth demo_session_config)"
  "hasPrivateApiAuth (new_InstagramAuth demo_session_config)"
  "getPrivateApiSession (new_InstagramAuth demo_session_config) = Some ''Aa''"
  by (simp_all add: hasGraphApiAuth_def hasPrivateApiAuth_def getGraphApiToken_def
      getPrivateApiSession_def truthy_str_def new_InstagramAuth_def initializeTokens_def
      demo_session_config_def)

lemma demo_session_ids:
  "generateDeviceId (new_InstagramAuth demo_session_config) = ''00000000-0000-4000-a000-000000000840''"
  "generateAndroidId (new_InstagramAuth demo_session_config) = ''android-840''"
  by code_simp+

subsection \<open>C7: headers exist exactly for an available scheme\<close>

text \<open>
  C7. For both schemes, the header builder fails (it throws the \<open>Error\<close> saying the
  credential is not available) if and only if the scheme is not available, that is its
  secret is absent or empty. Otherwise it returns a header map that holds
  \<open>Authorization: Bearer <token>\<close> for the Graph API, and for the Private API the
  \<open>Cookie\<close> header with the session id together with the two derived device identifier
  headers.
\<close>

theorem C7_headers_iff_available:
  "(getGraphApiHeaders a = Inl (Error ''Graph API token non disponible'')) = (\<not> hasGraphApiAuth a) \<and>
   (getPrivateApiHeaders a = Inl (Error ''Private API session non disponible'')) = (\<not> hasPrivateApiAuth a) \<and>
   (hasGraphApiAuth a \<longrightarrow>
      (\<exists>token hs. getGraphApiToken a = Some token \<and> getGraphApiHeaders a = Inr hs \<and>
         header hs ''Authorization'' = Some (''Bearer '' @ token))) \<and>
   (hasPrivateApiAuth a \<longrightarrow>
      (\<exists>sessionId hs. getPrivateApiSession a = Some sessionId \<and> getPrivateApiHeaders a = Inr hs \<and>
         header hs ''Cookie'' = Some (''sessionid='' @ sessionId) \<and>
         header hs ''X-IG-Device-ID'' = Some (generateDeviceId a) \<and>
         header hs ''X-IG-Android-ID'' = Some (generateAndroidId a)))"
proof (intro conjI impI)
  show "(getGraphApiHeaders a = Inl (Error ''Graph API token non disponible'')) = (\<not> hasGraphApiAuth a)"
    by (cases "getGraphApiToken a")
       (simp_all add: getGraphApiHeaders_def hasGraphApiAuth_def truthy_str_def)
  show "(getPrivateApiHeaders a = Inl (Error ''Private API session non disponible'')) = (\<not> hasPrivateApiAuth a)"
    by (cases "getPrivateApiSession a")
       (simp_all add: getPrivateApiHeaders_def hasPrivateApiAuth_def truthy_str_def)
next
  assume "hasGraphApiAuth a"
  then obtain token where "getGraphApiToken a = Some token" "token \<noteq> []"
    by (auto simp: hasGraphApiAuth_def truthy_str_iff)
  then show "\<exists>token hs. getGraphApiToken a = Some token \<and> getGraphApiHeaders a = Inr hs \<and>
         header hs ''Authorization'' = Some (''Bearer '' @ token)"
    by (simp add: getGraphApiHeaders_def header_def)
next
  assume "hasPrivateApiAuth a"
  then obtain sid where "getPrivateApiSession a = Some sid" "sid \<noteq> []"
    by (auto simp: hasPrivateApiAuth_def truthy_str_iff)
  then show "\<exists>sessionId hs. getPrivateApiSession a = Some sessionId \<and> getPrivateApiHeaders a = Inr hs \<and>
         header hs ''Cookie'' = Some (''sessionid='' @ sessionId) \<and>
         header hs ''X-IG-Device-ID'' = Some (generateDeviceId a) \<and>
         header hs ''X-IG-Android-ID'' = Some (generateAndroidId a)"
    by (simp add: getPrivateApiHeaders_def header_def)
qed

theorem C7_witness:
  "getGraphApiHeaders (new_InstagramAuth demo_session_config) =
     Inl (Error ''Graph API token non disponible'') \<and>
   (\<exists>hs. getPrivateApiHeaders (new_InstagramAuth demo_session_config) = Inr hs \<and>
      header hs ''Cookie'' = Some ''sessionid=Aa'' \<and>
      header hs ''X-IG-Device-ID'' = Some ''00000000-0000-4000-a000-000000000840'' \<and>
      header hs ''X-IG-Android-ID'' = Some ''android-840'')"
  using C7_headers_iff_available [of "new_InstagramAuth demo_session_config"]
    demo_session_available demo_session_ids
  by auto

subsection \<open>The derived device identifiers\<close>

text \<open>Both identifiers are computed from the session id alone: two credential stores
  with the same session id, whatever their other fields, derive the same identifiers.\<close>

lemma device_ids_depend_on_session_only:
  assumes "getPrivateApiSession a1 = getPrivateApiSession a2"
  shows "generateDeviceId a1 = generateDeviceId a2"
    and "generateAndroidId a1 = generateAndroidId a2"
  using assms by (simp_all add: generateDeviceId_def generateAndroidId_def device_seed_def)

text \<open>The identifiers carry the magnitude of a 32-bit hash, so distinct session ids can
  share them: \<open>Aa\<close> and \<open>BB\<close> have the same hash 2112.\<close>

lemma device_id_collision:
  "generateDeviceId (updatePrivateApiSession ''Aa'' None None a) =
   generateDeviceId (updatePrivateApiSession ''BB'' None None a)"
  by (simp add: generateDeviceId_def device_seed_def getPrivateApiSession_def
      updatePrivateApiSession_def seed_hash_def hash_step_def to_int32_def)

section \<open>Properties of the dispatch layer\<close>

lemma canExecute_False_unchanged:
  "canExecute now now' c st = (False, st') \<Longrightarrow> st' = st"
  by (auto simp: canExecute_def split: if_splits option.splits)

lemma canExecute_refused:
  "\<not> fst (canExecute now now' c st) \<Longrightarrow> canExecute now now' c st = (False, st)"
  using canExecute_False_unchanged [of now now' c st]
  by (cases "canExecute now now' c st") auto

lemma canExecute_granted:
  "fst (canExecute now now' c st) \<Longrightarrow> canExecute now now' c st = (True, snd (canExecute now now' c st))"
  by (cases "canExecute now now' c st") auto

subsection \<open>C3: a local refusal never reaches the network\<close>

text \<open>
  C3. For \<open>get\<close>, \<open>post\<close> and \<open>delete\<close>, any endpoint, options and transport: when
  \<open>canExecute\<close> of the call's category is false, the call returns the failure with code
  \<open>RATE_LIMIT_LOCAL\<close> whose message ends with the formatted wait time of
  \<open>getWaitTimeFormatted\<close>, and the client is exactly as before: no request was handed
  to the transport (\<open>sent\<close> is unchanged) and no permit was taken.
\<close>

theorem C3_local_limit_blocks_dispatch:
  "(\<not> fst (canExecute (t_check rd) (t_check_reset rd) (category_of Read options) (rateLimiter cl)) \<longrightarrow>
      get net rd endpoint params options cl =
        (failure_response (ThrownApiError
            \<lparr>code = JStr ''RATE_LIMIT_LOCAL'',
             message = JStr (''Rate limit local atteint. R'' @ [CHR 0xE9] @ ''essayez dans '' @
                getWaitTimeFormatted (t_wait rd) (category_of Read options) (rateLimiter cl)),
             details = None\<rparr>), cl)) \<and>
   (\<not> fst (canExecute (t_check rd) (t_check_reset rd) (category_of Write options) (rateLimiter cl)) \<longrightarrow>
      post net rd endpoint params options cl =
        (failure_response (ThrownApiError
            \<lparr>code = JStr ''RATE_LIMIT_LOCAL'',
             message = JStr (''Rate limit local atteint. R'' @ [CHR 0xE9] @ ''essayez dans '' @
                getWaitTimeFormatted (t_wait rd) (category_of Write options) (rateLimiter cl)),
             details = None\<rparr>), cl) \<and>
      delete_request net rd endpoint options cl =
        (failure_response (ThrownApiError
            \<lparr>code = JStr ''RATE_LIMIT_LOCAL'',
             message = JStr (''Rate limit local atteint. R'' @ [CHR 0xE9] @ ''essayez dans '' @
                getWaitTimeFormatted (t_wait rd) (category_of Write options) (rateLimiter cl)),
             details = None\<rparr>), cl))"
  by (auto simp: get_def post_def delete_request_def rate_limit_local_def Let_def
      dest!: canExecute_refused)

lemma exhausted_client_refuses:
  "\<not> fst (canExecute (t_check at_1000) (t_check_reset at_1000) (category_of Write no_options)
            (rateLimiter exhausted_client))"
  "getWaitTimeFormatted (t_wait at_1000) (category_of Write no_options) (rateLimiter exhausted_client)
     = ''59m 59s''"
  "sent exhausted_client = []"
  by code_simp+

theorem C3_witness:
  "post (\<lambda>_. Fulfilled \<lparr>status = 200, resp_data = JNull, resp_headers = []\<rparr>) at_1000
     ''/17/comments'' None no_options exhausted_client =
     (failure_response (ThrownApiError
         \<lparr>code = JStr ''RATE_LIMIT_LOCAL'',
          message = JStr (''Rate limit local atteint. R'' @ [CHR 0xE9] @ ''essayez dans 59m 59s''),
          details = None\<rparr>), exhausted_client) \<and>
   sent exhausted_client = []"
  using C3_local_limit_blocks_dispatch [where rd = at_1000 and options = no_options
      and cl = exhausted_client and endpoint = "''/17/comments''" and params = None
      and net = "\<lambda>_. Fulfilled \<lparr>status = 200, resp_data = JNull, resp_headers = []\<rparr>"]
    exhausted_client_refuses
  by simp

subsection \<open>C5: the bookkeeping after a fulfilled request\<close>

text \<open>After a fulfilled request \<open>get\<close> and \<open>post\<close> consume a permit and then resync
  from the response headers; \<open>delete\<close> only consumes.\<close>

lemma fulfilled_bookkeeping:
  assumes "api_headers (api_of options) (auth cl) = Inr hs"
  shows "fst (canExecute (t_check rd) (t_check_reset rd) (category_of Read options) (rateLimiter cl)) \<Longrightarrow>
         rateLimiter (snd (get (\<lambda>_. Fulfilled response) rd endpoint params options cl)) =
           updateFromHeaders (category_of Read options) (resp_headers response)
             (snd (consume (t_consume rd) (t_consume_reset rd) (category_of Read options)
                (snd (canExecute (t_check rd) (t_check_reset rd) (category_of Read options) (rateLimiter cl)))))"
    and "fst (canExecute (t_check rd) (t_check_reset rd) (category_of Write options) (rateLimiter cl)) \<Longrightarrow>
         rateLimiter (snd (post (\<lambda>_. Fulfilled response) rd endpoint params options cl)) =
           updateFromHeaders (category_of Write options) (resp_headers response)
             (snd (consume (t_consume rd) (t_consume_reset rd) (category_of Write options)
                (snd (canExecute (t_check rd) (t_check_reset rd) (category_of Write options) (rateLimiter cl)))))"
    and "fst (canExecute (t_check rd) (t_check_reset rd) (category_of Write options) (rateLimiter cl)) \<Longrightarrow>
         rateLimiter (snd (delete_request (\<lambda>_. Fulfilled response) rd endpoint options cl)) =
             snd (consume (t_consume rd) (t_consume_reset rd) (category_of Write options)
                (snd (canExecute (t_check rd) (t_check_reset rd) (category_of Write options) (rateLimiter cl))))"
  using assms
  by (auto simp: get_def post_def delete_request_def Let_def split: prod.splits dest!: canExecute_granted)

text \<open>
  C5 asks that every verb, DELETE included, calls \<open>consume\<close> and then resyncs from the
  quota headers of the response. At a fulfilled DELETE whose response carries
  \<open>x-ratelimit-remaining: 5\<close>, the write bucket of a fresh client is left at 24 (one
  permit consumed, the header ignored); the same response to a POST leaves it at 5.
\<close>

theorem C5_delete_skips_resync:
  "map_option remaining (buckets (rateLimiter (snd (
      delete_request (\<lambda>_. Fulfilled \<lparr>status = 200, resp_data = JNull,
                                    resp_headers = [(''x-ratelimit-remaining'', ''5'')]\<rparr>)
        at_1000 ''/17'' no_options (new_InstagramClient demo_config (\<lambda>_. 0))))) Write)
     = Some (Num 24) \<and>
   map_option remaining (buckets (rateLimiter (snd (
      post (\<lambda>_. Fulfilled \<lparr>status = 200, resp_data = JNull,
                          resp_headers = [(''x-ratelimit-remaining'', ''5'')]\<rparr>)
        at_1000 ''/17'' None no_options (new_InstagramClient demo_config (\<lambda>_. 0))))) Write)
     = Some (Num 5)"
  by code_simp

subsection \<open>C6: the value of a fulfilled request, and a 429\<close>

text \<open>
  C6, as the code has it. For \<open>get\<close>, \<open>post\<close> and \<open>delete\<close>, when the quota check
  passes and the credentials are available: a fulfilled response, a 204 included,
  yields a success whose value is the response body as the transport delivered it (no
  placeholder is put in its place); a rejection with status 429 yields the failure with
  code \<open>RATE_LIMIT_EXCEEDED\<close> whose \<open>retry_after\<close> detail is the \<open>retry-after\<close>
  header of the response (undefined when the header is absent).
\<close>

theorem C6_success_body_and_429:
  "api_headers (api_of options) (auth cl) = Inr hs \<longrightarrow>
     (fst (canExecute (t_check rd) (t_check_reset rd) (category_of Read options) (rateLimiter cl)) \<longrightarrow>
        fst (get (\<lambda>_. Fulfilled response) rd endpoint params options cl) =
          success_response (resp_data response) \<and>
        (status r = 429 \<longrightarrow>
           fst (get (\<lambda>_. Rejected (AxiosError (Some r) msg)) rd endpoint params options cl) =
             failure_response (ThrownApiError
               \<lparr>code = JStr ''RATE_LIMIT_EXCEEDED'',
                message = JStr (''Limite de requ'' @ [CHR 0xEA] @ ''tes atteinte. R'' @ [CHR 0xE9] @
                                ''essayez plus tard.''),
                details = Some [(''api'', JStr (api_name (api_of options))),
                                (''retry_after'', opt_json (header (resp_headers r) ''retry-after''))]\<rparr>))) \<and>
     (fst (canExecute (t_check rd) (t_check_reset rd) (category_of Write options) (rateLimiter cl)) \<longrightarrow>
        fst (post (\<lambda>_. Fulfilled response) rd endpoint params options cl) =
          success_response (resp_data response) \<and>
        fst (delete_request (\<lambda>_. Fulfilled response) rd endpoint options cl) =
          success_response (resp_data response) \<and>
        (status r = 429 \<longrightarrow>
           fst (post (\<lambda>_. Rejected (AxiosError (Some r) msg)) rd endpoint params options cl) =
             failure_response (ThrownApiError
               \<lparr>code = JStr ''RATE_LIMIT_EXCEEDED'',
                message = JStr (''Limite de requ'' @ [CHR 0xEA] @ ''tes atteinte. R'' @ [CHR 0xE9] @
                                ''essayez plus tard.''),
                details = Some [(''api'', JStr (api_name (api_of options))),
                                (''retry_after'', opt_json (header (resp_headers r) ''retry-after''))]\<rparr>) \<and>
           fst (delete_request (\<lambda>_. Rejected (AxiosError (Some r) msg)) rd endpoint options cl) =
             failure_response (ThrownApiError
               \<lparr>code = JStr ''RATE_LIMIT_EXCEEDED'',
                message = JStr (''Limite de requ'' @ [CHR 0xEA] @ ''tes atteinte. R'' @ [CHR 0xE9] @
                                ''essayez plus tard.''),
                details = Some [(''api'', JStr (api_name (api_of options))),
                                (''retry_after'', opt_json (header (resp_headers r) ''retry-after''))]\<rparr>)))"
  by (auto simp: get_def post_def delete_request_def Let_def handleApiError_def
      split: prod.splits dest!: canExecute_granted)

lemma demo_client_ready:
  "fst (canExecute (t_check at_1000) (t_check_reset at_1000) (category_of Read no_options)
         (rateLimiter (new_InstagramClient demo_config (\<lambda>_. 0))))"
  "api_headers (api_of no_options) (auth (new_InstagramClient demo_config (\<lambda>_. 0))) =
     Inr [(''Authorization'', ''Bearer tok''), (''Content-Type'', ''application/json'')]"
  by code_simp+

theorem C6_witness:
  "fst (get (\<lambda>_. Fulfilled \<lparr>status = 204, resp_data = JStr [], resp_headers = []\<rparr>) at_1000
          ''/17'' None no_options (new_InstagramClient demo_config (\<lambda>_. 0))) =
     success_response (JStr []) \<and>
   fst (get (\<lambda>_. Rejected (AxiosError
               (Some \<lparr>status = 429, resp_data = JNull, resp_headers = [(''retry-after'', ''37'')]\<rparr>)
               ''Request failed with status code 429'')) at_1000
          ''/17'' None no_options (new_InstagramClient demo_config (\<lambda>_. 0))) =
     failure_response (ThrownApiError
       \<lparr>code = JStr ''RATE_LIMIT_EXCEEDED'',
        message = JStr (''Limite de requ'' @ [CHR 0xEA] @ ''tes atteinte. R'' @ [CHR 0xE9] @
                        ''essayez plus tard.''),
        details = Some [(''api'', JStr ''graph''), (''retry_after'', JStr ''37'')]\<rparr>)"
  using C6_success_body_and_429 [where rd = at_1000 and options = no_options
      and cl = "new_InstagramClient demo_config (\<lambda>_. 0)" and endpoint = "''/17''" and params = None
      and response = "\<lparr>status = 204, resp_data = JStr [], resp_headers = []\<rparr>"
      and r = "\<lparr>status = 429, resp_data = JNull, resp_headers = [(''retry-after'', ''37'')]\<rparr>"
      and msg = "''Request failed with status code 429''"
      and hs = "[(''Authorization'', ''Bearer tok''), (''Content-Type'', ''application/json'')]"]
    demo_client_ready
  by (simp add: api_name_def api_of_def no_options_def opt_json_def header_def)

text \<open>
  C6 as stated fails on a 204: the empty body of the response is returned as the value,
  not \<open>{success: true}\<close>.
\<close>

theorem C6_counterexample:
  "fst (get (\<lambda>_. Fulfilled \<lparr>status = 204, resp_data = JStr [], resp_headers = []\<rparr>) at_1000
          ''/17'' None no_options (new_InstagramClient demo_config (\<lambda>_. 0))) =
     success_response (JStr []) \<and>
   fst (get (\<lambda>_. Fulfilled \<lparr>status = 204, resp_data = JStr [], resp_headers = []\<rparr>) at_1000
          ''/17'' None no_options (new_InstagramClient demo_config (\<lambda>_. 0))) \<noteq>
     success_response (JObj [(''success'', JBool True)])"
  by code_simp


end
